theory Spec2Isabelle
  imports Complex_Main
begin

text \<open>
  A model of \<^verbatim>\<open>CombinedVariabilityTester\<close> of
  \<^verbatim>\<open>lande/fermi/likelihood/variability.py\<close>: the time bins, the all-time fit,
  the two fits of every bin with each backend, and the statistic \<open>TS_var\<close>. Not
  modelled are the plot, the handling of the output directory and of the files of the
  external tools, and \<^verbatim>\<open>_TS_to_sigma\<close>, which minimises a function of SciPy's
  survival functions numerically.
\<close>

section \<open>Floating-point values of the variability test\<close>

text \<open>
  The statistics of \<^verbatim>\<open>lande/fermi/likelihood/variability.py\<close> are NumPy doubles.
  They are modelled as exact reals extended by the three special values of IEEE 754
  arithmetic that the code has to cope with: the two infinities and not-a-number.
  Rounding, overflow, underflow and the sign of zero are not modelled; every operation
  on finite values is the exact real operation, and an operation involving a special
  value follows IEEE 754 (as NumPy does on arrays: a division by zero yields an infinity
  or NaN together with a warning, never an exception).
\<close>

datatype fl = Fin real | PInf | MInf | NaN

fun isnan :: "fl \<Rightarrow> bool" where
  "isnan NaN = True"
| "isnan _ = False"

fun fl_neg :: "fl \<Rightarrow> fl" where
  "fl_neg (Fin x) = Fin (- x)"
| "fl_neg PInf = MInf"
| "fl_neg MInf = PInf"
| "fl_neg NaN = NaN"

fun fl_add :: "fl \<Rightarrow> fl \<Rightarrow> fl" where
  "fl_add (Fin x) (Fin y) = Fin (x + y)"
| "fl_add NaN _ = NaN"
| "fl_add _ NaN = NaN"
| "fl_add PInf MInf = NaN"
| "fl_add MInf PInf = NaN"
| "fl_add PInf _ = PInf"
| "fl_add _ PInf = PInf"
| "fl_add MInf _ = MInf"
| "fl_add _ MInf = MInf"

definition fl_sub :: "fl \<Rightarrow> fl \<Rightarrow> fl" where
  "fl_sub x y = fl_add x (fl_neg y)"

text \<open>An infinity times a finite value keeps or flips its sign; times zero it is NaN.\<close>

definition inf_times :: "fl \<Rightarrow> real \<Rightarrow> fl" where
  "inf_times i x = (if x = 0 then NaN else if 0 < x then i else fl_neg i)"

fun fl_mul :: "fl \<Rightarrow> fl \<Rightarrow> fl" where
  "fl_mul (Fin x) (Fin y) = Fin (x * y)"
| "fl_mul NaN _ = NaN"
| "fl_mul _ NaN = NaN"
| "fl_mul (Fin x) PInf = inf_times PInf x"
| "fl_mul (Fin x) MInf = inf_times MInf x"
| "fl_mul PInf (Fin y) = inf_times PInf y"
| "fl_mul MInf (Fin y) = inf_times MInf y"
| "fl_mul PInf PInf = PInf"
| "fl_mul MInf MInf = PInf"
| "fl_mul PInf MInf = MInf"
| "fl_mul MInf PInf = MInf"

text \<open>
  Division: \<open>0/0\<close> and \<open>inf/inf\<close> are NaN, a nonzero finite value over zero is an
  infinity, a finite value over an infinity is zero.
\<close>

fun fl_div :: "fl \<Rightarrow> fl \<Rightarrow> fl" where
  "fl_div (Fin x) (Fin y) =
     (if y \<noteq> 0 then Fin (x / y)
      else if x = 0 then NaN else if 0 < x then PInf else MInf)"
| "fl_div NaN _ = NaN"
| "fl_div _ NaN = NaN"
| "fl_div (Fin x) PInf = Fin 0"
| "fl_div (Fin x) MInf = Fin 0"
| "fl_div PInf (Fin y) = (if 0 \<le> y then PInf else MInf)"
| "fl_div MInf (Fin y) = (if 0 \<le> y then MInf else PInf)"
| "fl_div PInf PInf = NaN"
| "fl_div PInf MInf = NaN"
| "fl_div MInf PInf = NaN"
| "fl_div MInf MInf = NaN"

text \<open>\<^verbatim>\<open>x**2\<close> on a NumPy array or scalar is the product of \<open>x\<close> with itself.\<close>

definition fl_sq :: "fl \<Rightarrow> fl" where
  "fl_sq x = fl_mul x x"

text \<open>\<^verbatim>\<open>a < b\<close>: every comparison with NaN is false.\<close>

fun fl_less :: "fl \<Rightarrow> fl \<Rightarrow> bool" where
  "fl_less (Fin x) (Fin y) = (x < y)"
| "fl_less NaN _ = False"
| "fl_less _ NaN = False"
| "fl_less _ MInf = False"
| "fl_less PInf _ = False"
| "fl_less MInf _ = True"
| "fl_less _ PInf = True"

text \<open>\<^verbatim>\<open>np.sum\<close> of a one-dimensional array; the empty sum is \<open>0.0\<close>.\<close>

definition np_sum :: "fl list \<Rightarrow> fl" where
  "np_sum xs = foldl fl_add (Fin 0) xs"

section \<open>The variability statistic: \<^verbatim>\<open>compute_TS_var\<close>\<close>

text \<open>
  The entry \<^verbatim>\<open>b[type]\<close> of one time bin for one fitting backend, as built by
  \<^verbatim>\<open>each_time_fit_pointlike\<close> and \<^verbatim>\<open>each_time_fit_gtlike\<close>:
  the log-likelihood with the source frozen (\<^verbatim>\<open>ll_0\<close>), with its prefactor
  refitted (\<^verbatim>\<open>ll_1\<close>), the fitted flux (\<^verbatim>\<open>['flux']['flux']\<close>), the test
  statistic and the optional upper limit. The flux error and the diffuse-model summary,
  which are stored but never read by the code modelled here, are left out.
\<close>

record 'u fitres =
  ll_0 :: fl
  ll_1 :: fl
  flux :: fl
  TS :: fl
  upper_limit :: "'u option"

text \<open>The class attribute \<^verbatim>\<open>f = 0.02\<close> of \<^verbatim>\<open>CombinedVariabilityTester\<close>.\<close>

definition CombinedVariabilityTester_f :: fl where
  "CombinedVariabilityTester_f = Fin (2 / 100)"

text \<open>
  One element of the array expression
  \<^verbatim>\<open>fraction = df**2/(df**2 + f**2*F0**2)\<close>.
\<close>

definition fraction :: "fl \<Rightarrow> fl \<Rightarrow> fl \<Rightarrow> fl" where
  "fraction f F0 df =
     fl_div (fl_sq df) (fl_add (fl_sq df) (fl_mul (fl_sq f) (fl_sq F0)))"

text \<open>
  One element of
  \<^verbatim>\<open>good_fraction = np.where(~np.isnan(fraction), fraction, 1)\<close>.
\<close>

definition good_fraction :: "fl \<Rightarrow> fl" where
  "good_fraction w = (if \<not> isnan w then w else Fin 1)"

text \<open>
  \<^verbatim>\<open>compute_TS_var(self, type)\<close>. The arguments are \<^verbatim>\<open>self.f\<close>, the list
  \<^verbatim>\<open>[b[type] for b in self.bands]\<close> and
  \<^verbatim>\<open>self.all_time[type]['flux']['flux']\<close>. The body works on whole arrays, as
  the source does: \<open>ll1\<close>, \<open>ll0\<close> and \<open>F\<close> are built from the bands, \<open>df\<close> subtracts
  the scalar \<open>F0\<close> from every flux, the statistic \<open>2*(ll1-ll0)\<close> is multiplied in place
  by the guarded fraction, and the array is summed.
\<close>

definition compute_TS_var :: "fl \<Rightarrow> 'u fitres list \<Rightarrow> fl \<Rightarrow> fl" where
  "compute_TS_var f bands F0 =
     (let ll1 = map ll_1 bands;
          ll0 = map ll_0 bands;
          F = map flux bands;
          df = map (\<lambda>x. fl_sub x F0) F;
          TS_var = map (fl_mul (Fin 2)) (map2 fl_sub ll1 ll0);
          fraction_arr = map (fraction f F0) df;
          good = map good_fraction fraction_arr;
          TS_var' = map2 fl_mul TS_var good
      in np_sum TS_var')"








section \<open>Errors\<close>

text \<open>
  The exceptions of the code: \<^verbatim>\<open>raise Exception(msg)\<close> is the configuration
  error of the time-bin setup and the sanity checks of \<^verbatim>\<open>time_cut\<close>; the others
  are the built-in exceptions a failed \<^verbatim>\<open>assert\<close>, an unbound name, an empty
  \<^verbatim>\<open>min\<close>/\<^verbatim>\<open>max\<close> or unpacking, an index out of range, a missing key
  and a missing attribute raise.
\<close>

datatype error =
    Exception string
  | AssertionError
  | NameError string
  | ValueError
  | IndexError
  | KeyError string
  | AttributeError string

section \<open>Time bins: \<^verbatim>\<open>get_time_range\<close> and \<^verbatim>\<open>_setup_time_bins\<close>\<close>

text \<open>
  \<^verbatim>\<open>ft1files\<close> is one event file or a (nested) list of them; of a file only the
  \<^verbatim>\<open>START\<close> and \<^verbatim>\<open>STOP\<close> columns of its good-time-interval table are read.
\<close>

datatype ft1files = File "real list" "real list" | Files "ft1files list"

text \<open>Python's \<^verbatim>\<open>min\<close> and \<^verbatim>\<open>max\<close> on a non-empty sequence.\<close>

fun py_min :: "real list \<Rightarrow> real" where
  "py_min [] = 0"
| "py_min (x # xs) = foldl min x xs"

fun py_max :: "real list \<Rightarrow> real" where
  "py_max [] = 0"
| "py_max (x # xs) = foldl max x xs"

text \<open>A list comprehension whose elements may raise: the first exception wins.\<close>

fun collect :: "(error + 'a) list \<Rightarrow> error + 'a list" where
  "collect [] = Inr []"
| "collect (Inl e # _) = Inl e"
| "collect (Inr x # rs) = (case collect rs of Inl e \<Rightarrow> Inl e | Inr xs \<Rightarrow> Inr (x # xs))"

fun get_time_range :: "ft1files \<Rightarrow> error + real \<times> real" where
  "get_time_range (Files fs) =
     (case collect (map get_time_range fs) of
        Inl e \<Rightarrow> Inl e
      | Inr rs \<Rightarrow>
          if rs = [] then Inl ValueError
          else Inr (py_min (map fst rs), py_max (map snd rs)))"
| "get_time_range (File START STOP) =
     (if START = [] \<or> STOP = [] then Inl ValueError
      else Inr (py_min START, py_max STOP))"

text \<open>
  \<^verbatim>\<open>np.linspace(start, stop, num)\<close>: \<open>num\<close> points, the \<open>k\<close>-th being
  \<open>start + k * step\<close> with \<open>step = (stop - start) / (num - 1)\<close> and the last one set to
  \<open>stop\<close>; a negative \<open>num\<close> is a \<^verbatim>\<open>ValueError\<close>.
\<close>

definition linspace :: "real \<Rightarrow> real \<Rightarrow> int \<Rightarrow> error + real list" where
  "linspace start stop num =
     (if num < 0 then Inl ValueError
      else if num = 0 then Inr []
      else if num = 1 then Inr [start]
      else let step = (stop - start) / real_of_int (num - 1)
           in Inr (map (\<lambda>k. real k * step + start) [0..<nat num - 1] @ [stop]))"

text \<open>
  \<^verbatim>\<open>np.round(x).astype(int)\<close>: NumPy rounds to the nearest integer and a value
  exactly half way between two integers to the even one.
\<close>

definition np_round :: "real \<Rightarrow> int" where
  "np_round x =
     (let n = \<lfloor>x\<rfloor>; d = x - real_of_int n
      in if d < 1 / 2 then n else if 1 / 2 < d then n + 1 else if even n then n else n + 1)"

text \<open>\<^verbatim>\<open>np.asarray(xs, dtype=int)\<close> on numbers truncates towards zero.\<close>

definition astype_int :: "real \<Rightarrow> int" where
  "astype_int x = (if 0 \<le> x then \<lfloor>x\<rfloor> else \<lceil>x\<rceil>)"

section \<open>Sources, regions of interest and the fitting engines\<close>

type_synonym name = string

text \<open>
  The parameter state of a spectral model, as far as the variability test touches it:
  every source has a name, is a background (diffuse) source or not, and has a list of
  spectral parameters, the normalisation first, each with its value and its
  \<^emph>\<open>free\<close> flag.
\<close>

record source =
  background :: bool
  pars :: "(real \<times> bool) list"

type_synonym model = "(name \<times> source) list"

text \<open>
  A pointlike region of interest or a gtlike likelihood object: the parameter state of its
  sources and the data it is bound to. Of the data only what the code reads is kept: the
  event files, the number of spacecraft files, the \<^verbatim>\<open>tstart\<close>/\<^verbatim>\<open>tstop\<close>
  options of the spectral analysis, and the time selection \<^verbatim>\<open>time_cut\<close> applied
  (\<open>None\<close> for the caller's region, which holds all the data).
\<close>

record roi =
  sources :: model
  ft1files :: ft1files
  ft2files :: nat
  sa_tstart :: real
  sa_tstop :: real
  tcut :: "(int \<times> int) option"

text \<open>
  Modelled from the spec: \<^verbatim>\<open>get_background\<close> and \<^verbatim>\<open>get_sources\<close> of
  \<^verbatim>\<open>lande.fermi.likelihood.save\<close> are not among the sources; they give the names of
  ``all background sources'' and of ``all other sources'' of a model.
\<close>

definition get_background :: "model \<Rightarrow> name list" where
  "get_background m = map fst (filter (\<lambda>(n, s). background s) m)"

definition get_sources :: "model \<Rightarrow> name list" where
  "get_sources m = map fst (filter (\<lambda>(n, s). \<not> background s) m)"

text \<open>
  Modelled from the spec: \<^verbatim>\<open>modify(like, which, free=...)\<close> of
  \<^verbatim>\<open>lande.fermi.likelihood.modify\<close> (and \<^verbatim>\<open>roi.modify(which=..., free=...)\<close>)
  is the interface \<^verbatim>\<open>freeze(source_name, free)\<close>: it sets the free flag of every
  parameter of the named source and leaves the values and the other sources alone.
\<close>

definition modify :: "model \<Rightarrow> name \<Rightarrow> bool \<Rightarrow> model" where
  "modify m which free =
     map (\<lambda>(n, s). if n = which then (n, s\<lparr>pars := map (\<lambda>(v, _). (v, free)) (pars s)\<rparr>)
                    else (n, s)) m"

text \<open>
  Modelled from the spec: \<^verbatim>\<open>allow_fit_only_prefactor\<close> of
  \<^verbatim>\<open>lande.fermi.likelihood.fit\<close> is \<^verbatim>\<open>restrict_to_normalization_only\<close>:
  it frees the normalisation of the named source and keeps its other parameters fixed.
\<close>

definition allow_fit_only_prefactor :: "model \<Rightarrow> name \<Rightarrow> model" where
  "allow_fit_only_prefactor m which =
     map (\<lambda>(n, s). if n = which
           then (n, s\<lparr>pars := (case pars s of [] \<Rightarrow> []
                                | (v, _) # ps \<Rightarrow> (v, True) # map (\<lambda>(v, _). (v, False)) ps)\<rparr>)
           else (n, s)) m"

text \<open>
  Modelled from the spec: \<^verbatim>\<open>SuperState\<close> of
  \<^verbatim>\<open>lande.fermi.likelihood.superstate\<close> and pointlike's
  \<^verbatim>\<open>PointlikeState\<close> are snapshots of fit parameters: the constructor copies the
  parameter state of an object, \<^verbatim>\<open>restore\<close> writes the copy back into an object.
\<close>

definition SuperState :: "roi \<Rightarrow> model" where
  "SuperState like = sources like"

definition PointlikeState :: "roi \<Rightarrow> model" where
  "PointlikeState r = sources r"

definition restore :: "model \<Rightarrow> roi \<Rightarrow> roi" where
  "restore saved obj = obj\<lparr>sources := saved\<rparr>"

text \<open>
  The fitting engines are outside the code under study and are parameters of the model.
  A fit is given the object it works on and answers with the parameter state it leaves
  behind; the other functions read an object. \<^verbatim>\<open>Gtlike\<close> builds the gtlike
  likelihood object of a region. The upper-limit classes are given the confidence level
  \<^verbatim>\<open>cl\<close>.
\<close>

record 'u engines =
  roi_fit :: "roi \<Rightarrow> model"
  roi_logLikelihood :: "roi \<Rightarrow> fl"
  roi_TS :: "roi \<Rightarrow> name \<Rightarrow> fl"
  roi_flux :: "roi \<Rightarrow> name \<Rightarrow> fl"
  PointlikeUpperLimit :: "roi \<Rightarrow> name \<Rightarrow> real \<Rightarrow> 'u"
  Gtlike :: "roi \<Rightarrow> roi"
  paranoid_gtlike_fit :: "roi \<Rightarrow> model"
  like_logLike :: "roi \<Rightarrow> fl"
  like_Ts :: "roi \<Rightarrow> name \<Rightarrow> fl"
  like_flux :: "roi \<Rightarrow> name \<Rightarrow> fl"
  GtlikeUpperLimit :: "roi \<Rightarrow> name \<Rightarrow> real \<Rightarrow> 'u"

text \<open>
  Every call of a fit is recorded with the backend, the stage (the three stages the code
  announces when verbose: the all-time fit, the fit with the source of interest frozen,
  the fit with only its prefactor free) and the object as the fit receives it.
\<close>

datatype backend = pointlike | gtlike

datatype stage = AllTime | SourceFrozen | PrefactorFree

datatype call = FitCall backend stage roi


section \<open>The tester object\<close>

text \<open>
  The results of the all-time fit that the code reads again:
  \<^verbatim>\<open>all_time['pointlike']['flux']['flux']\<close>, \<^verbatim>\<open>all_time['pointlike']['TS']\<close>
  and \<^verbatim>\<open>all_time['gtlike']['flux']['flux']\<close> (absent without gtlike).
\<close>

record all_time_fits =
  pointlike_flux :: fl
  pointlike_TS :: fl
  gtlike_flux :: "fl option"

text \<open>One entry of \<^verbatim>\<open>self.bands\<close>; the key \<^verbatim>\<open>'gtlike'\<close> exists only with gtlike.\<close>

record 'u band =
  tstart :: int
  tstop :: int
  days :: int
  b_pointlike :: "'u fitres"
  b_gtlike :: "'u fitres option"

text \<open>
  The attributes of a \<^verbatim>\<open>CombinedVariabilityTester\<close>: the keyword options
  (without the output directory, the verbosity and the options handed through to gtlike
  and to the livetime-cube tools, which only steer files and printing), the name of the
  source of interest, and what the methods store. An attribute not yet assigned holds
  \<open>None\<close>, an empty list or zero.
\<close>

record 'u tester =
  always_upper_limit :: bool
  min_ts :: fl
  ul_confidence :: real
  do_gtlike :: bool
  refit_background :: bool
  refit_other_sources :: bool
  nbins :: "int option"
  tstarts :: "real list option"
  tstops :: "real list option"
  name :: name
  earliest_time :: real
  latest_time :: real
  time_starts :: "int list"
  time_stops :: "int list"
  best_gtlike_state :: "model option"
  all_time :: "all_time_fits option"
  bands :: "'u band list"
  TS_var_pointlike :: "fl option"
  TS_var_gtlike :: "fl option"

text \<open>The tuple \<^verbatim>\<open>defaults\<close>, for a source of interest called \<open>nm\<close>.\<close>

definition defaults :: "name \<Rightarrow> 'u tester" where
  "defaults nm =
     \<lparr>always_upper_limit = False, min_ts = Fin 4, ul_confidence = 95 / 100,
      do_gtlike = True, refit_background = True, refit_other_sources = True,
      nbins = None, tstarts = None, tstops = None, name = nm,
      earliest_time = 0, latest_time = 0, time_starts = [], time_stops = [],
      best_gtlike_state = None, all_time = None, bands = [],
      TS_var_pointlike = None, TS_var_gtlike = None\<rparr>"

text \<open>
  \<^verbatim>\<open>_setup_time_bins\<close>: the three configuration checks, the time range of the
  event files, then the edges of \<open>nbins\<close> even bins rounded to the second, or the bins
  the caller listed.
\<close>

definition setup_time_bins :: "'u tester \<Rightarrow> roi \<Rightarrow> error + 'u tester" where
  "setup_time_bins self r =
     (if nbins self = None \<and> (tstarts self = None \<and> tstops self = None)
      then Inl (Exception ''Must specify nbins or tstarts and tstops'')
      else if nbins self \<noteq> None \<and> (tstarts self \<noteq> None \<and> tstops self \<noteq> None)
      then Inl (Exception ''Must not specify both nbins or tstarts and tstops'')
      else if tstarts self = None \<and> tstops self \<noteq> None
              \<or> tstarts self \<noteq> None \<and> tstops self = None
      then Inl (Exception ''Must specify both tsarts and tstops'')
      else
        case get_time_range (ft1files r) of
          Inl e \<Rightarrow> Inl e
        | Inr (tmin, tmax) \<Rightarrow>
            (case nbins self of
               Some n \<Rightarrow>
                 (case linspace tmin tmax (n + 1) of
                    Inl e \<Rightarrow> Inl e
                  | Inr pts \<Rightarrow>
                      let b = map np_round pts
                      in Inr (self\<lparr>earliest_time := tmin, latest_time := tmax,
                                   time_starts := butlast b, time_stops := tl b\<rparr>))
             | None \<Rightarrow>
                 (case (tstarts self, tstops self) of
                    (Some ts, Some te) \<Rightarrow>
                      if length ts \<noteq> length te then Inl AssertionError
                      else Inr (self\<lparr>earliest_time := tmin, latest_time := tmax,
                                     nbins := Some (int (length ts)),
                                     time_starts := map astype_int ts,
                                     time_stops := map astype_int te\<rparr>)
                  | _ \<Rightarrow> Inl (NameError ''starts''))))"



section \<open>The fits\<close>

text \<open>
  \<^verbatim>\<open>time_cut\<close>: a new region with copies of the sources, bound to the events
  between \<open>t0\<close> and \<open>t1\<close>. The runs of the external tools and the files they leave are
  not modelled; the two sanity checks and the indexing of the spacecraft files are.
\<close>

definition time_cut :: "roi \<Rightarrow> int \<Rightarrow> int \<Rightarrow> error + roi" where
  "time_cut r t0 t1 =
     (if sa_tstart r \<noteq> 0 \<or> sa_tstop r \<noteq> 0 then Inl (Exception ''sanity check'')
      else if 1 < ft2files r then Inl (Exception ''...'')
      else if ft2files r = 0 then Inl IndexError
      else Inr (r\<lparr>tcut := Some (t0, t1)\<rparr>))"

text \<open>A loop \<^verbatim>\<open>for source in names: modify(obj, source, free=False)\<close>.\<close>

definition freeze_all :: "roi \<Rightarrow> name list \<Rightarrow> roi" where
  "freeze_all obj names =
     foldl (\<lambda>ob source. ob\<lparr>sources := modify (sources ob) source False\<rparr>) obj names"

text \<open>
  \<^verbatim>\<open>all_time_fit\<close>: fits the caller's region in place, and with gtlike builds the
  likelihood object of the fitted region, fits it and keeps a snapshot of it in
  \<^verbatim>\<open>self.best_gtlike_state\<close>. The result is the region after the call, the fits
  called, the tester and the dictionary \<^verbatim>\<open>all_time\<close>.
\<close>

definition all_time_fit ::
  "'u engines \<Rightarrow> 'u tester \<Rightarrow> roi \<Rightarrow> roi \<times> call list \<times> 'u tester \<times> all_time_fits" where
  "all_time_fit eng self r =
     (let r1 = r\<lparr>sources := roi_fit eng r\<rparr>;
          pflux = roi_flux eng r1 (name self);
          pts = roi_TS eng r1 (name self)
      in if do_gtlike self
         then let like = Gtlike eng r1;
                  like1 = like\<lparr>sources := paranoid_gtlike_fit eng like\<rparr>
              in (r1, [FitCall pointlike AllTime r, FitCall gtlike AllTime like],
                  self\<lparr>best_gtlike_state := Some (SuperState like1)\<rparr>,
                  \<lparr>pointlike_flux = pflux, pointlike_TS = pts,
                   gtlike_flux = Some (like_flux eng like1 (name self))\<rparr>)
         else (r1, [FitCall pointlike AllTime r], self,
               \<lparr>pointlike_flux = pflux, pointlike_TS = pts, gtlike_flux = None\<rparr>))"

text \<open>
  \<^verbatim>\<open>each_time_fit_pointlike\<close>. The loop over the background sources calls
  \<^verbatim>\<open>roi.modify\<close>, and \<^verbatim>\<open>roi\<close> is neither a parameter, a local nor a global of
  the module: its first iteration raises \<^verbatim>\<open>NameError\<close>. The loop over the other
  sources and the rest of the method work on \<^verbatim>\<open>smaller_roi\<close>. The log-likelihood is
  the negative of \<^verbatim>\<open>logLikelihood\<close>, and the upper limit is asked for with
  \<^verbatim>\<open>cl=0.95\<close>. The result is the region after the call, the fits called and the
  dictionary \<^verbatim>\<open>results\<close> or the exception.
\<close>

definition each_time_fit_pointlike ::
  "'u engines \<Rightarrow> 'u tester \<Rightarrow> roi \<Rightarrow> roi \<times> call list \<times> (error + 'u fitres)" where
  "each_time_fit_pointlike eng self smaller_roi =
     (if \<not> refit_background self \<and> get_background (sources smaller_roi) \<noteq> []
      then (smaller_roi, [], Inl (NameError ''roi''))
      else
        let r1 = (if \<not> refit_other_sources self
                  then freeze_all smaller_roi (get_sources (sources smaller_roi))
                  else smaller_roi);
            r2 = r1\<lparr>sources := modify (sources r1) (name self) False\<rparr>;
            r3 = r2\<lparr>sources := roi_fit eng r2\<rparr>;
            ll0 = fl_neg (roi_logLikelihood eng r3);
            r4 = r3\<lparr>sources := allow_fit_only_prefactor (sources r3) (name self)\<rparr>;
            r5 = r4\<lparr>sources := roi_fit eng r4\<rparr>;
            ll1 = fl_neg (roi_logLikelihood eng r5);
            fx = roi_flux eng r5 (name self);
            ts = roi_TS eng r5 (name self);
            ul = (if fl_less ts (min_ts self) \<or> always_upper_limit self
                  then Some (PointlikeUpperLimit eng r5 (name self) (95 / 100))
                  else None)
        in (r5, [FitCall pointlike SourceFrozen r2, FitCall pointlike PrefactorFree r4],
            Inr \<lparr>ll_0 = ll0, ll_1 = ll1, flux = fx, TS = ts, upper_limit = ul\<rparr>))"

text \<open>
  \<^verbatim>\<open>each_time_fit_gtlike\<close>: builds the likelihood object of the bin, restores the
  snapshot of the all-time fit into it, freezes what is not to be refitted and the source
  of interest, fits, frees the prefactor, fits again. The result is the fits called and
  the dictionary \<^verbatim>\<open>results\<close> or the exception (the attribute
  \<^verbatim>\<open>best_gtlike_state\<close> does not exist if the all-time fit ran without gtlike).
\<close>

definition each_time_fit_gtlike ::
  "'u engines \<Rightarrow> 'u tester \<Rightarrow> roi \<Rightarrow> call list \<times> (error + 'u fitres)" where
  "each_time_fit_gtlike eng self smaller_roi =
     (let like = Gtlike eng smaller_roi
      in case best_gtlike_state self of
           None \<Rightarrow> ([], Inl (AttributeError ''best_gtlike_state''))
         | Some best \<Rightarrow>
             let l1 = restore best like;
                 l2 = (if \<not> refit_background self
                       then freeze_all l1 (get_background (sources l1)) else l1);
                 l3 = (if \<not> refit_other_sources self
                       then freeze_all l2 (get_sources (sources l2)) else l2);
                 l4 = l3\<lparr>sources := modify (sources l3) (name self) False\<rparr>;
                 l5 = l4\<lparr>sources := paranoid_gtlike_fit eng l4\<rparr>;
                 ll0 = like_logLike eng l5;
                 l6 = l5\<lparr>sources := allow_fit_only_prefactor (sources l5) (name self)\<rparr>;
                 l7 = l6\<lparr>sources := paranoid_gtlike_fit eng l6\<rparr>;
                 ll1 = like_logLike eng l7;
                 fx = like_flux eng l7 (name self);
                 ts = like_Ts eng l7 (name self);
                 ul = (if fl_less ts (min_ts self) \<or> always_upper_limit self
                       then Some (GtlikeUpperLimit eng l7 (name self) (95 / 100))
                       else None)
             in ([FitCall gtlike SourceFrozen l4, FitCall gtlike PrefactorFree l6],
                 Inr \<lparr>ll_0 = ll0, ll_1 = ll1, flux = fx, TS = ts, upper_limit = ul\<rparr>))"

text \<open>
  The loop of \<^verbatim>\<open>_test_variability\<close> over the time bins, in order. Every bin gets
  its own region from \<^verbatim>\<open>time_cut\<close>; the pointlike fit changes that region, and
  the gtlike fit is given the region as the pointlike fit left it. An exception ends the
  loop. \<^verbatim>\<open>days\<close> is a quotient of integers.
\<close>

fun bands_loop ::
  "'u engines \<Rightarrow> 'u tester \<Rightarrow> roi \<Rightarrow> (int \<times> int) list \<Rightarrow> call list \<times> (error + 'u band list)" where
  "bands_loop eng self r [] = ([], Inr [])"
| "bands_loop eng self r ((t0, t1) # rest) =
     (case time_cut r t0 t1 of
        Inl e \<Rightarrow> ([], Inl e)
      | Inr smaller_roi \<Rightarrow>
          (case each_time_fit_pointlike eng self smaller_roi of
             (sr, c1, Inl e) \<Rightarrow> (c1, Inl e)
           | (sr, c1, Inr p) \<Rightarrow>
               (case (if do_gtlike self
                      then (case each_time_fit_gtlike eng self sr of
                              (c2, Inl e) \<Rightarrow> (c2, Inl e)
                            | (c2, Inr g) \<Rightarrow> (c2, Inr (Some g)))
                      else ([], Inr None)) of
                  (c2, Inl e) \<Rightarrow> (c1 @ c2, Inl e)
                | (c2, Inr g) \<Rightarrow>
                    (case bands_loop eng self r rest of
                       (c3, Inl e) \<Rightarrow> (c1 @ c2 @ c3, Inl e)
                     | (c3, Inr bs) \<Rightarrow>
                         (c1 @ c2 @ c3,
                          Inr (\<lparr>tstart = t0, tstop = t1,
                                days = (t1 - t0) div (60 * 60 * 24),
                                b_pointlike = p, b_gtlike = g\<rparr> # bs))))))"

text \<open>
  \<^verbatim>\<open>_test_variability\<close>: the all-time fit, the bins, and \<open>TS_var\<close> for each
  backend. The result is the caller's region after the call, the fits called, and the
  tester or the exception.
\<close>

definition test_variability ::
  "'u engines \<Rightarrow> 'u tester \<Rightarrow> roi \<Rightarrow> roi \<times> call list \<times> (error + 'u tester)" where
  "test_variability eng self r =
     (case all_time_fit eng self r of
        (r1, c0, self1, atf) \<Rightarrow>
          (case bands_loop eng self1 r1 (zip (time_starts self1) (time_stops self1)) of
             (c1, Inl e) \<Rightarrow> (r1, c0 @ c1, Inl e)
           | (c1, Inr bs) \<Rightarrow>
               let tsp = compute_TS_var CombinedVariabilityTester_f (map b_pointlike bs)
                           (pointlike_flux atf);
                   self2 = self1\<lparr>all_time := Some atf, bands := bs,
                                  TS_var_pointlike := Some tsp\<rparr>
               in if do_gtlike self1
                  then (case (those (map b_gtlike bs), gtlike_flux atf) of
                          (Some gs, Some gf) \<Rightarrow>
                            (r1, c0 @ c1,
                             Inr (self2\<lparr>TS_var_gtlike :=
                                    Some (compute_TS_var CombinedVariabilityTester_f gs gf)\<rparr>))
                        | _ \<Rightarrow> (r1, c0 @ c1, Inl (KeyError ''gtlike'')))
                  else (r1, c0 @ c1, Inr self2)))"

text \<open>
  The constructor, after the keyword options are stored in \<open>self\<close>: the time bins, a
  snapshot of the caller's region, the test, and the restoring of the snapshot. An
  exception leaves the constructor at once. The result is the caller's region after the
  call, the fits called, and the tester or the exception.
\<close>

definition CombinedVariabilityTester_init ::
  "'u engines \<Rightarrow> 'u tester \<Rightarrow> roi \<Rightarrow> roi \<times> call list \<times> (error + 'u tester)" where
  "CombinedVariabilityTester_init eng self r =
     (case setup_time_bins self r of
        Inl e \<Rightarrow> (r, [], Inl e)
      | Inr self1 \<Rightarrow>
          (let saved_state = PointlikeState r
           in (case test_variability eng self1 r of
                 (r1, cs, Inl e) \<Rightarrow> (r1, cs, Inl e)
               | (r1, cs, Inr self2) \<Rightarrow> (restore saved_state r1, cs, Inr self2))))"


section \<open>Auxiliary notions and a concrete run\<close>


text \<open>
  The parameter values of a model without the free flags, and the property that every
  parameter of every background source, or of every other source, is frozen.
\<close>

definition param_values :: "model \<Rightarrow> (name \<times> real list) list" where
  "param_values m = map (\<lambda>(n, s). (n, map fst (pars s))) m"

definition frozen :: "source \<Rightarrow> bool" where
  "frozen s = list_all (\<lambda>(v, fr). \<not> fr) (pars s)"

text \<open>What \<^verbatim>\<open>modify(..., free=False)\<close> does to one source.\<close>

definition freeze_src :: "source \<Rightarrow> source" where
  "freeze_src s = s\<lparr>pars := map (\<lambda>(v, _). (v, False)) (pars s)\<rparr>"

definition backgrounds_frozen :: "model \<Rightarrow> bool" where
  "backgrounds_frozen m = list_all (\<lambda>(n, s). \<not> background s \<or> frozen s) m"

definition others_frozen :: "model \<Rightarrow> bool" where
  "others_frozen m = list_all (\<lambda>(n, s). background s \<or> frozen s) m"

text \<open>
  A small run, to evaluate the model on: a region with the source of interest and one
  background source, one event file whose good time runs from 0.6 to 10.4 seconds, and
  engines whose fits add 1 (pointlike) or 2 (gtlike) to every free parameter, whose test
  statistic is 1 and whose upper limit is the confidence level it was asked for.
\<close>

definition example_roi :: roi where
  "example_roi =
     \<lparr>sources = [(''src'', \<lparr>background = False, pars = [(1, True), (2, True)]\<rparr>),
                 (''galactic'', \<lparr>background = True, pars = [(1, True)]\<rparr>)],
      ft1files = File [6 / 10] [104 / 10], ft2files = 1,
      sa_tstart = 0, sa_tstop = 0, tcut = None\<rparr>"

definition shift_free :: "real \<Rightarrow> roi \<Rightarrow> model" where
  "shift_free d r =
     map (\<lambda>(n, s). (n, s\<lparr>pars := map (\<lambda>(v, fr). (if fr then v + d else v, fr)) (pars s)\<rparr>))
         (sources r)"

definition example_engines :: "real engines" where
  "example_engines =
     \<lparr>roi_fit = shift_free 1,
      roi_logLikelihood = (\<lambda>r. Fin 5),
      roi_TS = (\<lambda>r n. Fin 1),
      roi_flux = (\<lambda>r n. Fin 3),
      PointlikeUpperLimit = (\<lambda>r n cl. cl),
      Gtlike = (\<lambda>r. r),
      paranoid_gtlike_fit = shift_free 2,
      like_logLike = (\<lambda>r. Fin (- 5)),
      like_Ts = (\<lambda>r n. Fin 1),
      like_flux = (\<lambda>r n. Fin 3),
      GtlikeUpperLimit = (\<lambda>r n cl. cl)\<rparr>"

definition example_tester :: "real tester" where
  "example_tester = (defaults ''src'')\<lparr>nbins := Some 1\<rparr>"

section \<open>Properties of the variability statistic\<close>

subsection \<open>Arithmetic of the extended values\<close>

lemma fl_sq_simps [simp]:
  "fl_sq (Fin x) = Fin (x * x)" "fl_sq PInf = PInf" "fl_sq MInf = PInf" "fl_sq NaN = NaN"
  by (simp_all add: fl_sq_def)

lemma fl_sub_Fin [simp]: "fl_sub (Fin x) (Fin y) = Fin (x - y)"
  by (simp add: fl_sub_def)









subsection \<open>The damping fraction\<close>






subsection \<open>The sum over the bins\<close>
















section \<open>Properties of the time bins\<close>






















section \<open>Properties of the fits\<close>

subsection \<open>Freezing\<close>

lemma modify_False: "modify m w False = map (\<lambda>(n, s). if n = w then (n, freeze_src s) else (n, s)) m"
  by (auto simp: modify_def freeze_src_def)

lemma freeze_src_idem [simp]: "freeze_src (freeze_src s) = freeze_src s"
  by (simp add: freeze_src_def o_def split_def)

lemma freeze_src_frozen [simp]: "frozen (freeze_src s)"
  by (simp add: frozen_def freeze_src_def list_all_iff split_def)

lemma freeze_src_background [simp]: "background (freeze_src s) = background s"
  by (simp add: freeze_src_def)

lemma freeze_src_values [simp]: "map fst (pars (freeze_src s)) = map fst (pars s)"
  by (simp add: freeze_src_def o_def split_def)

lemma sources_freeze_all:
  "sources (freeze_all obj names) =
     map (\<lambda>(n, s). if n \<in> set names then (n, freeze_src s) else (n, s)) (sources obj)"
proof (induction names arbitrary: obj)
  case Nil
  show ?case by (simp add: freeze_all_def)
next
  case (Cons a names)
  have "freeze_all obj (a # names) = freeze_all (obj\<lparr>sources := modify (sources obj) a False\<rparr>) names"
    by (simp add: freeze_all_def)
  then show ?case
    by (auto simp: Cons.IH modify_False o_def split_def)
qed

lemma freeze_all_other_fields:
  "freeze_all obj names = obj\<lparr>sources := sources (freeze_all obj names)\<rparr>"
proof (induction names arbitrary: obj)
  case Nil
  show ?case by (simp add: freeze_all_def)
next
  case (Cons a names)
  have eq: "freeze_all obj (a # names) = freeze_all (obj\<lparr>sources := modify (sources obj) a False\<rparr>) names"
    by (simp add: freeze_all_def)
  show ?case
    by (subst eq, subst Cons.IH) (simp add: eq)
qed

lemma param_values_modify [simp]: "param_values (modify m w fr) = param_values m"
  by (simp add: param_values_def modify_def o_def split_def if_distrib cong: if_cong)

lemma param_values_freeze_all [simp]:
  "param_values (sources (freeze_all obj names)) = param_values (sources obj)"
  by (simp add: sources_freeze_all param_values_def o_def split_def if_distrib cong: if_cong)

lemma in_get_background: "(n, s) \<in> set m \<Longrightarrow> background s \<Longrightarrow> n \<in> set (get_background m)"
  by (force simp: get_background_def)

lemma in_get_sources: "(n, s) \<in> set m \<Longrightarrow> \<not> background s \<Longrightarrow> n \<in> set (get_sources m)"
  by (force simp: get_sources_def)

lemma backgrounds_frozen_freeze_all:
  "backgrounds_frozen (sources (freeze_all obj (get_background (sources obj))))"
  by (auto simp: backgrounds_frozen_def sources_freeze_all list_all_iff
      split: if_splits dest: in_get_background)

lemma others_frozen_freeze_all:
  "others_frozen (sources (freeze_all obj (get_sources (sources obj))))"
  by (auto simp: others_frozen_def sources_freeze_all list_all_iff
      split: if_splits dest: in_get_sources)

lemma backgrounds_frozen_modify:
  "backgrounds_frozen m \<Longrightarrow> backgrounds_frozen (modify m w False)"
  by (auto simp: backgrounds_frozen_def modify_False list_all_iff split: if_splits)

lemma others_frozen_modify:
  "others_frozen m \<Longrightarrow> others_frozen (modify m w False)"
  by (auto simp: others_frozen_def modify_False list_all_iff split: if_splits)

lemma backgrounds_frozen_freeze_more:
  "backgrounds_frozen (sources obj) \<Longrightarrow> backgrounds_frozen (sources (freeze_all obj names))"
  by (auto simp: backgrounds_frozen_def sources_freeze_all list_all_iff split: if_splits)

subsection \<open>The fits of one time bin\<close>

text \<open>
  The gtlike fit of a bin calls two fits. The first, with the source of interest frozen,
  receives the parameter values of the snapshot, and the background sources and the other
  sources frozen if they are not to be refitted.
\<close>

lemma gtlike_frozen_call:
  assumes "best_gtlike_state self = Some best"
  shows "\<exists>l4 l6 res. each_time_fit_gtlike eng self sroi =
            ([FitCall gtlike SourceFrozen l4, FitCall gtlike PrefactorFree l6], Inr res)
          \<and> param_values (sources l4) = param_values best
          \<and> (\<not> refit_background self \<longrightarrow> backgrounds_frozen (sources l4))
          \<and> (\<not> refit_other_sources self \<longrightarrow> others_frozen (sources l4))"
proof -
  define l1 where "l1 = restore best (Gtlike eng sroi)"
  define l2 where "l2 = (if \<not> refit_background self
                       then freeze_all l1 (get_background (sources l1)) else l1)"
  define l3 where "l3 = (if \<not> refit_other_sources self
                       then freeze_all l2 (get_sources (sources l2)) else l2)"
  define l4 where "l4 = l3\<lparr>sources := modify (sources l3) (name self) False\<rparr>"
  have v1: "param_values (sources l1) = param_values best"
    by (simp add: l1_def restore_def)
  have v4: "param_values (sources l4) = param_values best"
    using v1 by (simp add: l4_def l3_def l2_def)
  have b2: "\<not> refit_background self \<Longrightarrow> backgrounds_frozen (sources l2)"
    by (simp add: l2_def backgrounds_frozen_freeze_all)
  have b3: "\<not> refit_background self \<Longrightarrow> backgrounds_frozen (sources l3)"
    using b2 by (simp add: l3_def backgrounds_frozen_freeze_more)
  have b4: "\<not> refit_background self \<Longrightarrow> backgrounds_frozen (sources l4)"
    using b3 by (simp add: l4_def backgrounds_frozen_modify)
  have o3: "\<not> refit_other_sources self \<Longrightarrow> others_frozen (sources l3)"
    by (simp add: l3_def others_frozen_freeze_all)
  have o4: "\<not> refit_other_sources self \<Longrightarrow> others_frozen (sources l4)"
    using o3 by (simp add: l4_def others_frozen_modify)
  have "\<exists>l6 res. each_time_fit_gtlike eng self sroi =
            ([FitCall gtlike SourceFrozen l4, FitCall gtlike PrefactorFree l6], Inr res)"
    using assms by (simp add: each_time_fit_gtlike_def Let_def l4_def l3_def l2_def l1_def)
  with v4 b4 o4 show ?thesis by blast
qed

lemma gtlike_no_state:
  assumes "best_gtlike_state self = None"
  shows "fst (each_time_fit_gtlike eng self sroi) = []"
  using assms by (simp add: each_time_fit_gtlike_def Let_def)

lemma pointlike_calls:
  "FitCall b st l \<in> set (fst (snd (each_time_fit_pointlike eng self sroi))) \<Longrightarrow> b = pointlike"
  by (auto simp: each_time_fit_pointlike_def Let_def split: if_splits)

lemma bands_loop_gtlike_frozen:
  assumes "FitCall gtlike SourceFrozen l \<in> set (fst (bands_loop eng self r bins))"
  shows "do_gtlike self
    \<and> (\<exists>best. best_gtlike_state self = Some best \<and> param_values (sources l) = param_values best)
    \<and> (\<not> refit_background self \<longrightarrow> backgrounds_frozen (sources l))
    \<and> (\<not> refit_other_sources self \<longrightarrow> others_frozen (sources l))"
  using assms
proof (induction bins)
  case Nil
  then show ?case by simp
next
  case (Cons bin bins)
  obtain t0 t1 where bin: "bin = (t0, t1)" by (cases bin)
  show ?case
  proof (cases "time_cut r t0 t1")
    case (Inl e)
    with Cons.prems bin show ?thesis by simp
  next
    case (Inr sroi)
    obtain sr c1 pres where p: "each_time_fit_pointlike eng self sroi = (sr, c1, pres)"
      by (cases "each_time_fit_pointlike eng self sroi") auto
    have c1: "FitCall gtlike SourceFrozen l \<notin> set c1"
      using pointlike_calls [of gtlike SourceFrozen l eng self sroi] p by auto
    show ?thesis
    proof (cases pres)
      case (Inl e)
      with Cons.prems bin Inr p c1 show ?thesis by simp
    next
      case pr: (Inr pr)
      show ?thesis
      proof (cases "do_gtlike self")
        case False
        with Cons.prems bin Inr p pr c1 have "FitCall gtlike SourceFrozen l \<in> set (fst (bands_loop eng self r bins))"
          by (auto split: prod.splits sum.splits)
        then show ?thesis by (rule Cons.IH)
      next
        case True
        show ?thesis
        proof (cases "best_gtlike_state self")
          case None
          then have "each_time_fit_gtlike eng self sr = ([], Inl (AttributeError ''best_gtlike_state''))"
            by (simp add: each_time_fit_gtlike_def Let_def)
          with Cons.prems bin Inr p pr c1 True show ?thesis by simp
        next
          case (Some best)
          then obtain l4 l6 res where g: "each_time_fit_gtlike eng self sr =
            ([FitCall gtlike SourceFrozen l4, FitCall gtlike PrefactorFree l6], Inr res)"
            and v: "param_values (sources l4) = param_values best"
            and fr: "\<not> refit_background self \<longrightarrow> backgrounds_frozen (sources l4)"
              "\<not> refit_other_sources self \<longrightarrow> others_frozen (sources l4)"
            using gtlike_frozen_call [of self best eng sr] by blast
          from Cons.prems bin Inr p pr c1 True g
          have "l = l4 \<or> FitCall gtlike SourceFrozen l \<in> set (fst (bands_loop eng self r bins))"
            by (auto split: prod.splits sum.splits)
          then show ?thesis
          proof
            assume "l = l4"
            with v fr Some True show ?thesis by simp
          next
            assume "FitCall gtlike SourceFrozen l \<in> set (fst (bands_loop eng self r bins))"
            then show ?thesis by (rule Cons.IH)
          qed
        qed
      qed
    qed
  qed
qed

subsection \<open>The whole run\<close>

lemma all_time_fit_region:
  "fst (all_time_fit eng self r) = r\<lparr>sources := roi_fit eng r\<rparr>"
  by (simp add: all_time_fit_def Let_def)

lemma all_time_fit_calls:
  "FitCall b st l \<in> set (fst (snd (all_time_fit eng self r))) \<Longrightarrow> st = AllTime"
  by (auto simp: all_time_fit_def Let_def split: if_splits)

lemma all_time_fit_self:
  "fst (snd (snd (all_time_fit eng self r))) =
     (if do_gtlike self
      then self\<lparr>best_gtlike_state :=
             Some (paranoid_gtlike_fit eng (Gtlike eng (r\<lparr>sources := roi_fit eng r\<rparr>)))\<rparr>
      else self)"
  by (simp add: all_time_fit_def Let_def SuperState_def)

lemma test_variability_region:
  "fst (test_variability eng self r) = r\<lparr>sources := roi_fit eng r\<rparr>"
proof -
  obtain r1 c0 self1 atf where a: "all_time_fit eng self r = (r1, c0, self1, atf)"
    by (cases "all_time_fit eng self r") auto
  then have "r1 = r\<lparr>sources := roi_fit eng r\<rparr>"
    using all_time_fit_region [of eng self r] by simp
  with a show ?thesis
    by (auto simp: test_variability_def Let_def split: prod.splits sum.splits option.splits)
qed

text \<open>
  Claim C9. If the constructor completes without an exception, the caller's region of
  interest is, after the call, what it was before: the all-time fit changes it in place,
  and the snapshot taken before the test is restored after it.
\<close>

theorem init_restores_roi:
  assumes "CombinedVariabilityTester_init eng self r = (r', cs, Inr t)"
  shows "r' = r"
proof (cases "setup_time_bins self r")
  case (Inl e)
  with assms show ?thesis by (simp add: CombinedVariabilityTester_init_def)
next
  case (Inr self1)
  obtain r1 cs1 res where tv: "test_variability eng self1 r = (r1, cs1, res)"
    by (cases "test_variability eng self1 r") auto
  then have r1: "r1 = r\<lparr>sources := roi_fit eng r\<rparr>"
    using test_variability_region [of eng self1 r] by simp
  from assms Inr tv have "r' = restore (PointlikeState r) r1"
    by (cases res) (simp_all add: CombinedVariabilityTester_init_def Let_def)
  with r1 show ?thesis by (simp add: restore_def PointlikeState_def)
qed

lemma test_variability_calls:
  assumes "FitCall gtlike SourceFrozen l \<in> set (fst (snd (test_variability eng self r)))"
  shows "param_values (sources l) =
       param_values (paranoid_gtlike_fit eng (Gtlike eng (r\<lparr>sources := roi_fit eng r\<rparr>)))
    \<and> (\<not> refit_background self \<longrightarrow> backgrounds_frozen (sources l))
    \<and> (\<not> refit_other_sources self \<longrightarrow> others_frozen (sources l))"
proof -
  obtain r1 c0 self1 atf where a: "all_time_fit eng self r = (r1, c0, self1, atf)"
    by (cases "all_time_fit eng self r") auto
  obtain c1 res where b: "bands_loop eng self1 r1 (zip (time_starts self1) (time_stops self1)) = (c1, res)"
    by (cases "bands_loop eng self1 r1 (zip (time_starts self1) (time_stops self1))") auto
  have cs: "fst (snd (test_variability eng self r)) = c0 @ c1"
    using a b by (auto simp: test_variability_def Let_def split: sum.splits option.splits)
  have "FitCall gtlike SourceFrozen l \<notin> set c0"
    using all_time_fit_calls [of gtlike SourceFrozen l eng self r] a by auto
  with assms cs have "FitCall gtlike SourceFrozen l \<in> set (fst (bands_loop eng self1 r1 (zip (time_starts self1) (time_stops self1))))"
    using b by simp
  then obtain best where g: "do_gtlike self1" and best: "best_gtlike_state self1 = Some best"
      and v: "param_values (sources l) = param_values best"
      and fr: "\<not> refit_background self1 \<longrightarrow> backgrounds_frozen (sources l)"
        "\<not> refit_other_sources self1 \<longrightarrow> others_frozen (sources l)"
    using bands_loop_gtlike_frozen by blast
  have s1: "self1 = (if do_gtlike self
      then self\<lparr>best_gtlike_state :=
             Some (paranoid_gtlike_fit eng (Gtlike eng (r\<lparr>sources := roi_fit eng r\<rparr>)))\<rparr>
      else self)"
    using all_time_fit_self [of eng self r] a by simp
  with g have dg: "do_gtlike self" by (simp split: if_splits)
  with s1 best have "best = paranoid_gtlike_fit eng (Gtlike eng (r\<lparr>sources := roi_fit eng r\<rparr>))"
    by simp
  moreover from s1 dg have "refit_background self1 = refit_background self"
    "refit_other_sources self1 = refit_other_sources self" by simp_all
  ultimately show ?thesis using v fr by simp
qed

lemma setup_time_bins_options:
  assumes "setup_time_bins self r = Inr self1"
  shows "refit_background self1 = refit_background self
    \<and> refit_other_sources self1 = refit_other_sources self"
  using assms
  by (auto simp: setup_time_bins_def Let_def split: if_splits sum.splits option.splits prod.splits)

lemma init_calls:
  "fst (snd (CombinedVariabilityTester_init eng self r)) =
     (case setup_time_bins self r of Inl e \<Rightarrow> []
      | Inr self1 \<Rightarrow> fst (snd (test_variability eng self1 r)))"
  by (auto simp: CombinedVariabilityTester_init_def Let_def split: sum.splits prod.splits)

text \<open>
  Claim C10. In every run of the constructor, completed or not, every per-bin gtlike fit
  with the source of interest frozen (the first fit of each bin) starts from the parameter
  values of the all-time gtlike best fit: the state the all-time fit of the likelihood
  object of the fitted region left and \<^verbatim>\<open>all_time_fit\<close> saved once. It does not
  depend on the bin, on the pointlike fit of the bin or on the bins before. The freezing
  comes after the restoring: what is not to be refitted is still frozen when the fit
  starts.
\<close>

theorem per_bin_gtlike_starts_from_best:
  assumes "FitCall gtlike SourceFrozen l \<in> set (fst (snd (CombinedVariabilityTester_init eng self r)))"
  shows "param_values (sources l) =
       param_values (paranoid_gtlike_fit eng (Gtlike eng (r\<lparr>sources := roi_fit eng r\<rparr>)))
    \<and> (\<not> refit_background self \<longrightarrow> backgrounds_frozen (sources l))
    \<and> (\<not> refit_other_sources self \<longrightarrow> others_frozen (sources l))"
proof (cases "setup_time_bins self r")
  case (Inl e)
  with assms show ?thesis by (simp add: init_calls)
next
  case (Inr self1)
  with assms have "FitCall gtlike SourceFrozen l \<in> set (fst (snd (test_variability eng self1 r)))"
    by (simp add: init_calls)
  then show ?thesis
    using test_variability_calls [of l eng self1 r] setup_time_bins_options [OF Inr] by simp
qed

text \<open>Evaluating the example run.\<close>

lemmas example_defs =
  CombinedVariabilityTester_init_def setup_time_bins_def test_variability_def all_time_fit_def
  each_time_fit_pointlike_def each_time_fit_gtlike_def time_cut_def compute_TS_var_def
  example_engines_def example_tester_def example_roi_def defaults_def linspace_def np_round_def
  shift_free_def freeze_all_def modify_def allow_fit_only_prefactor_def restore_def
  SuperState_def PointlikeState_def get_background_def get_sources_def np_sum_def fraction_def
  good_fraction_def CombinedVariabilityTester_f_def fl_sub_def Let_def

lemma example_run_completes:
  "\<exists>r' cs t. CombinedVariabilityTester_init example_engines example_tester example_roi = (r', cs, Inr t)"
  by (simp add: example_defs)

lemma example_run_fits:
  "\<exists>l. FitCall gtlike SourceFrozen l
     \<in> set (fst (snd (CombinedVariabilityTester_init example_engines example_tester example_roi)))"
  by (simp add: example_defs)

text \<open>
  The example run completes, and ends with the example region although the all-time fit
  had changed it.
\<close>

theorem init_restores_roi_witness:
  "(\<exists>cs t. CombinedVariabilityTester_init example_engines example_tester example_roi
       = (example_roi, cs, Inr t))
   \<and> fst (all_time_fit example_engines example_tester example_roi) \<noteq> example_roi"
proof -
  obtain r' cs t where run:
    "CombinedVariabilityTester_init example_engines example_tester example_roi = (r', cs, Inr t)"
    using example_run_completes by blast
  from init_restores_roi [OF run] run
  have "\<exists>cs t. CombinedVariabilityTester_init example_engines example_tester example_roi
       = (example_roi, cs, Inr t)" by blast
  moreover have "fst (all_time_fit example_engines example_tester example_roi) \<noteq> example_roi"
    by (simp add: all_time_fit_region example_engines_def example_roi_def shift_free_def)
  ultimately show ?thesis by blast
qed

text \<open>
  In the example run the snapshot holds the values 4, 5 and 4, and the gtlike fit of the
  bin starts from them, while the region of the bin holds other values after its
  pointlike fit.
\<close>

theorem per_bin_gtlike_starts_from_best_witness:
  "\<exists>l. FitCall gtlike SourceFrozen l
       \<in> set (fst (snd (CombinedVariabilityTester_init example_engines example_tester example_roi)))
     \<and> param_values (sources l) = [(''src'', [4, 5]), (''galactic'', [4])]"
proof -
  obtain l where l: "FitCall gtlike SourceFrozen l
       \<in> set (fst (snd (CombinedVariabilityTester_init example_engines example_tester example_roi)))"
    using example_run_fits by blast
  have "param_values (paranoid_gtlike_fit example_engines
          (Gtlike example_engines (example_roi\<lparr>sources := roi_fit example_engines example_roi\<rparr>)))
        = [(''src'', [4, 5]), (''galactic'', [4])]"
    by (simp add: example_engines_def example_roi_def shift_free_def param_values_def)
  with per_bin_gtlike_starts_from_best [OF l, THEN conjunct1] l show ?thesis by auto
qed

subsection \<open>Upper limits\<close>

text \<open>
  Both fitters compute an upper limit exactly when the test statistic of the bin is below
  \<^verbatim>\<open>min_ts\<close> or \<^verbatim>\<open>always_upper_limit\<close> is set, and they ask for it at
  the confidence level 0.95 whatever \<^verbatim>\<open>ul_confidence\<close> is.
\<close>

lemma pointlike_upper_limit:
  assumes "each_time_fit_pointlike eng self sroi = (sr, cs, Inr res)"
  shows "upper_limit res =
     (if fl_less (TS res) (min_ts self) \<or> always_upper_limit self
      then Some (PointlikeUpperLimit eng sr (name self) (95 / 100)) else None)"
  using assms by (auto simp: each_time_fit_pointlike_def Let_def split: if_splits)

lemma gtlike_upper_limit:
  assumes "each_time_fit_gtlike eng self sroi = (cs, Inr res)"
  shows "\<exists>l7. upper_limit res =
     (if fl_less (TS res) (min_ts self) \<or> always_upper_limit self
      then Some (GtlikeUpperLimit eng l7 (name self) (95 / 100)) else None)"
  using assms by (auto simp: each_time_fit_gtlike_def Let_def split: if_splits option.splits)

text \<open>
  Claim C7, at a failing input: with \<^verbatim>\<open>ul_confidence = 0.68\<close> and a bin whose test
  statistic 1 is below \<^verbatim>\<open>min_ts = 4\<close>, both fitters store the upper limit the
  engine gives for the confidence level 0.95 (the example engine answers with the level
  it was asked for).
\<close>

theorem upper_limit_ignores_ul_confidence:
  "map_sum id upper_limit
     (snd (snd (each_time_fit_pointlike example_engines
                  (example_tester\<lparr>ul_confidence := 68 / 100\<rparr>) example_roi)))
     = Inr (Some (95 / 100))
   \<and> map_sum id upper_limit
     (snd (each_time_fit_gtlike example_engines
             (example_tester\<lparr>ul_confidence := 68 / 100,
                best_gtlike_state := Some (sources example_roi)\<rparr>) example_roi))
     = Inr (Some (95 / 100))"
  by (simp add: each_time_fit_pointlike_def each_time_fit_gtlike_def example_engines_def
      example_tester_def defaults_def Let_def)

subsection \<open>The freeze options\<close>

text \<open>
  In the pointlike fitter the option for the other sources works: before the first fit
  they are frozen. The option for the background sources works only for a region without
  background sources.
\<close>

lemma pointlike_frozen_call:
  assumes "FitCall b SourceFrozen l \<in> set (fst (snd (each_time_fit_pointlike eng self sroi)))"
  shows "(\<not> refit_other_sources self \<longrightarrow> others_frozen (sources l))
    \<and> (\<not> refit_background self \<longrightarrow> get_background (sources sroi) = [])"
  using assms
  by (auto simp: each_time_fit_pointlike_def Let_def others_frozen_freeze_all
      others_frozen_modify split: if_splits)

text \<open>
  Claim C8, at a failing input: with \<^verbatim>\<open>refit_background\<close> disabled and a region
  that has a background source, the pointlike fitter raises \<^verbatim>\<open>NameError\<close> before
  any fit, and freezes nothing.
\<close>

theorem pointlike_refit_background_raises:
  "each_time_fit_pointlike example_engines
     (example_tester\<lparr>refit_background := False\<rparr>) example_roi
   = (example_roi, [], Inl (NameError ''roi''))"
  by (simp add: each_time_fit_pointlike_def example_tester_def defaults_def example_roi_def
      get_background_def)

end
